theory Spec2Isabelle
  imports Main "HOL-Library.Sublist"
begin

section \<open>The document tree handed to the conversion rules\<close>

text \<open>
  The rules of \<^verbatim>\<open>src/index.ts\<close> receive DOM nodes. A node is a text node or an
  element with its tag name and its ordered child nodes. For an HTML element the DOM
  reports \<^verbatim>\<open>tagName\<close> in upper case (the \<^verbatim>\<open>dl\<close> rule compares it with
  \<^verbatim>\<open>'DT'\<close> and \<^verbatim>\<open>'DD'\<close>), so the tag is stored in that form, and a type selector
  such as \<^verbatim>\<open>'tr'\<close> is written by the tag name it matches, \<open>''TR''\<close>.
  Comment nodes, which add nothing to \<^verbatim>\<open>textContent\<close> of an element, to
  \<^verbatim>\<open>children\<close> or to a selector's matches, are left out. Strings are lists of 8-bit
  characters.
\<close>

datatype node = Text string | Element string "node list"

abbreviation NL :: char where
  "NL \<equiv> CHR 0x0A"

text \<open>\<^verbatim>\<open>node.tagName\<close>: undefined on a text node.\<close>

fun tagName :: "node \<Rightarrow> string option" where
  "tagName (Text s) = None"
| "tagName (Element t cs) = Some t"

fun childNodes :: "node \<Rightarrow> node list" where
  "childNodes (Text s) = []"
| "childNodes (Element t cs) = cs"

fun isElement :: "node \<Rightarrow> bool" where
  "isElement (Text s) = False"
| "isElement (Element t cs) = True"

text \<open>\<^verbatim>\<open>node.children\<close>: the child nodes that are elements, in order.\<close>

definition children :: "node \<Rightarrow> node list" where
  "children n = filter isElement (childNodes n)"

text \<open>\<^verbatim>\<open>node.textContent\<close>: the text of all descendant text nodes, in document order.\<close>

fun textContent :: "node \<Rightarrow> string" where
  "textContent (Text s) = s"
| "textContent (Element t cs) = concat (map textContent cs)"

text \<open>The descendants of a node in document order (pre-order), the node itself excluded.\<close>

fun descendants :: "node \<Rightarrow> node list" where
  "descendants (Text s) = []"
| "descendants (Element t cs) = concat (map (\<lambda>c. c # descendants c) cs)"

text \<open>A selector list of type selectors (\<^verbatim>\<open>'th, td'\<close>) matches elements only.\<close>

definition matchesSel :: "string list \<Rightarrow> node \<Rightarrow> bool" where
  "matchesSel sel n = (case tagName n of None \<Rightarrow> False | Some t \<Rightarrow> t \<in> set sel)"

definition querySelectorAll :: "string list \<Rightarrow> node \<Rightarrow> node list" where
  "querySelectorAll sel n = filter (matchesSel sel) (descendants n)"

text \<open>
  \<^verbatim>\<open>node.querySelector\<close>: a depth-first search that stops at the first match, or
  \<open>None\<close> (JavaScript's \<^verbatim>\<open>null\<close>).
\<close>

fun querySelector :: "string list \<Rightarrow> node \<Rightarrow> node option"
  and querySelectorIn :: "string list \<Rightarrow> node list \<Rightarrow> node option" where
  "querySelector sel (Text s) = None"
| "querySelector sel (Element t cs) = querySelectorIn sel cs"
| "querySelectorIn sel [] = None"
| "querySelectorIn sel (c # cs) =
     (if matchesSel sel c then Some c
      else (case querySelector sel c of
              Some d \<Rightarrow> Some d
            | None \<Rightarrow> querySelectorIn sel cs))"

section \<open>JavaScript string operations\<close>

text \<open>
  \<^verbatim>\<open>String.prototype.trim\<close> removes white space and line terminators from both ends.
  Among 8-bit characters these are tab, line feed, vertical tab, form feed, carriage
  return, space and the no-break space.
\<close>

definition isWhiteSpace :: "char \<Rightarrow> bool" where
  "isWhiteSpace c =
     (c \<in> set [CHR 0x09, CHR 0x0A, CHR 0x0B, CHR 0x0C, CHR 0x0D, CHR 0x20, CHR 0xA0])"

definition trim :: "string \<Rightarrow> string" where
  "trim s = rev (dropWhile isWhiteSpace (rev (dropWhile isWhiteSpace s)))"

text \<open>\<^verbatim>\<open>Array.prototype.join\<close>.\<close>

fun join :: "string \<Rightarrow> string list \<Rightarrow> string" where
  "join sep [] = []"
| "join sep [x] = x"
| "join sep (x # y # ys) = x @ sep @ join sep (y # ys)"

text \<open>
  \<^verbatim>\<open>cell.textContent?.trim() || ''\<close>: the trimmed text, with the empty string standing
  in for an empty (falsy) result.
\<close>

definition trimmedText :: "node \<Rightarrow> string" where
  "trimmedText n = (let t = trim (textContent n) in if t = [] then [] else t)"

section \<open>The definition-list rule of the Turndown strategy\<close>

text \<open>
  \<^verbatim>\<open>items.forEach\<close> of the \<^verbatim>\<open>dl\<close> rule: one step on the pair of the mutable variables
  \<^verbatim>\<open>markdown\<close> and \<^verbatim>\<open>currentDt\<close>.
\<close>

definition dl_item :: "string \<times> string \<Rightarrow> node \<Rightarrow> string \<times> string" where
  "dl_item st item =
     (let markdown = fst st; currentDt = snd st in
      if tagName item = Some ''DT'' then
        (let currentDt' = trimmedText item in
         if currentDt' \<noteq> [] then (markdown @ ''**'' @ currentDt' @ '':**'', currentDt')
         else (markdown, currentDt'))
      else if tagName item = Some ''DD'' then
        (let ddContent = trimmedText item in
         if ddContent \<noteq> [] then (markdown @ '' '' @ ddContent @ [NL], currentDt)
         else (markdown, currentDt))
      else (markdown, currentDt))"

definition dl_replacement :: "node \<Rightarrow> string" where
  "dl_replacement n = fst (foldl dl_item ([NL, NL], []) (children n)) @ [NL]"

text \<open>
  The fragment one direct child contributes, as the specification words it: a term
  with non-empty trimmed text gives the bold label, a definition with non-empty trimmed
  text gives a space, the text and a newline, anything else gives nothing.
\<close>

definition dl_fragment :: "node \<Rightarrow> string" where
  "dl_fragment item =
     (if tagName item = Some ''DT'' \<and> trim (textContent item) \<noteq> []
        then ''**'' @ trim (textContent item) @ '':**''
      else if tagName item = Some ''DD'' \<and> trim (textContent item) \<noteq> []
        then '' '' @ trim (textContent item) @ [NL]
      else [])"

section \<open>The table rule of the Turndown strategy\<close>

text \<open>
  Errors of the program: a \<^verbatim>\<open>TypeError\<close> is what JavaScript raises when a property
  of \<^verbatim>\<open>undefined\<close> is read; the other two are the errors the tool handler throws.
\<close>

datatype error = TypeError | UrlRequired | UnknownTool

text \<open>\<^verbatim>\<open>rows[i]\<close>: \<open>None\<close> is JavaScript's \<^verbatim>\<open>undefined\<close> for an index out of range.\<close>

definition at_index :: "'a list \<Rightarrow> nat \<Rightarrow> 'a option" where
  "at_index xs i = (if i < length xs then Some (xs ! i) else None)"

text \<open>
  \<^verbatim>\<open>Array.from(row.querySelectorAll('th, td')).map((cell) => cell.textContent?.trim() || '')\<close>
\<close>

definition cellTexts :: "node \<Rightarrow> string list" where
  "cellTexts row = map trimmedText (querySelectorAll [''TH'', ''TD''] row)"

text \<open>The loop \<^verbatim>\<open>for (let i = 1; i < rows.length; i++)\<close> with its accumulator.\<close>

function table_rows :: "nat \<Rightarrow> node list \<Rightarrow> string \<Rightarrow> error + string" where
  "table_rows i rows markdown =
     (if i < length rows then
        (case at_index rows i of
           None \<Rightarrow> Inl TypeError
         | Some row \<Rightarrow>
             table_rows (i + 1) rows
               (markdown @ [NL] @ ''| '' @ join '' | '' (cellTexts row) @ '' |''))
      else Inr markdown)"
  by pat_completeness auto
termination
  by (relation "measure (\<lambda>(i, rows, markdown). length rows - i)") auto

definition table_replacement :: "node \<Rightarrow> error + string" where
  "table_replacement n =
     (let rows = querySelectorAll [''TR''] n in
      if length rows = 0 then Inr []
      else
        (case at_index rows 0 of
           None \<Rightarrow> Inl TypeError
         | Some headerRow \<Rightarrow>
             (let headerCells = cellTexts headerRow;
                  separator = join ''|'' (map (\<lambda>_. ''---'') headerCells);
                  markdown = [NL] @ ''| '' @ join '' | '' headerCells @ '' |'' @ [NL]
                             @ ''|'' @ separator @ ''|''
              in case table_rows 1 rows markdown of
                   Inl e \<Rightarrow> Inl e
                 | Inr md \<Rightarrow> Inr (md @ [NL]))))"

text \<open>
  The lines of the specification's table grammar: a row of cells between pipes, and the
  separator with one dash group per column.
\<close>

definition pipe_line :: "string list \<Rightarrow> string" where
  "pipe_line cells = ''| '' @ join '' | '' cells @ '' |''"

definition separator_line :: "nat \<Rightarrow> string" where
  "separator_line w = ''|'' @ join ''|'' (replicate w ''---'') @ ''|''"

text \<open>
  Measuring a block: the lines of a string (split at line feeds), and the lines between
  the leading and the trailing newline of a block.
\<close>

fun split_lines :: "string \<Rightarrow> string list" where
  "split_lines [] = [[]]"
| "split_lines (c # cs) =
     (if c = NL then [] # split_lines cs
      else (case split_lines cs of
              [] \<Rightarrow> [[c]]
            | l # ls \<Rightarrow> (c # l) # ls))"

definition block_lines :: "string \<Rightarrow> string list" where
  "block_lines s = butlast (tl (split_lines s))"

section \<open>The translator table of the NodeHtmlMarkdown strategy\<close>

text \<open>
  A translator configuration as \<^verbatim>\<open>getMarkdownStringFromHtmlByNHM\<close> writes them: every
  field is optional, \<open>None\<close> is a field the source leaves out. The fields
  \<^verbatim>\<open>prefix\<close> and \<^verbatim>\<open>postfix\<close> carry a suffix, as \<open>prefix\<close> is a constant of the
  list library.
\<close>

record translator =
  preserveWhitespace :: "bool option"
  surroundingNewlines :: "bool option"
  prefixStr :: "string option"
  postfixStr :: "string option"
  ignore :: "bool option"
  postprocess :: "(node \<Rightarrow> string) option"

definition noDirectives :: translator where
  "noDirectives =
     \<lparr>preserveWhitespace = None, surroundingNewlines = None, prefixStr = None,
      postfixStr = None, ignore = None, postprocess = None\<rparr>"

text \<open>
  The \<^verbatim>\<open>postprocess\<close> hook of the \<^verbatim>\<open>Head\<close> translator, a function of
  \<^verbatim>\<open>ctx.node\<close>: \<^verbatim>\<open>titleNode.textContent || ''\<close> when the head has a title element,
  the empty string otherwise.
\<close>

definition head_postprocess :: "node \<Rightarrow> string" where
  "head_postprocess n =
     (case querySelector [''TITLE''] n of
        Some titleNode \<Rightarrow> (let t = textContent titleNode in if t = [] then [] else t)
      | None \<Rightarrow> [])"

text \<open>
  \<^verbatim>\<open>customTranslators\<close>, keyed as the source keys it, in the order of the object
  literal, followed by the three entries the \<^verbatim>\<open>mainOnly\<close> branch assigns.
\<close>

definition customTranslators :: "bool \<Rightarrow> (string \<times> translator) list" where
  "customTranslators mainOnly =
     [(''dl'', noDirectives\<lparr>preserveWhitespace := Some False, surroundingNewlines := Some True\<rparr>),
      (''dt'', noDirectives\<lparr>prefixStr := Some ''**'', postfixStr := Some '':** '',
                             surroundingNewlines := Some False\<rparr>),
      (''dd'', noDirectives\<lparr>postfixStr := Some [NL], surroundingNewlines := Some False\<rparr>),
      (''Head'', noDirectives\<lparr>postfixStr := Some [NL], ignore := Some False,
                               postprocess := Some head_postprocess,
                               surroundingNewlines := Some True\<rparr>)]
     @ (if mainOnly
        then [(''Header'', noDirectives\<lparr>ignore := Some True\<rparr>),
              (''Footer'', noDirectives\<lparr>ignore := Some True\<rparr>),
              (''Nav'', noDirectives\<lparr>ignore := Some True\<rparr>)]
        else [])"

section \<open>The rules registered on the Turndown service\<close>

text \<open>
  \<^verbatim>\<open>getMarkdownStringFromHtmlByTD\<close> registers, in this order, the removal of
  \<^verbatim>\<open>script\<close> and \<^verbatim>\<open>style\<close>, under \<^verbatim>\<open>mainOnly\<close> the removal of \<^verbatim>\<open>header\<close>,
  \<^verbatim>\<open>footer\<close> and \<^verbatim>\<open>nav\<close>, and the two rules \<^verbatim>\<open>table\<close> and \<^verbatim>\<open>dl\<close>, each with
  the tag its filter names.
\<close>

datatype td_rule = Remove | TableRule | DlRule

definition turndownRules :: "bool \<Rightarrow> (string \<times> td_rule) list" where
  "turndownRules mainOnly =
     [(''script'', Remove), (''style'', Remove)]
     @ (if mainOnly then [(''header'', Remove), (''footer'', Remove), (''nav'', Remove)] else [])
     @ [(''table'', TableRule), (''dl'', DlRule)]"

section \<open>The tool handler\<close>

text \<open>
  The value of \<^verbatim>\<open>request.params.arguments?.url\<close> and its conversion by
  \<^verbatim>\<open>String(...)\<close>. The values modelled are the ones whose conversion is a fixed
  text: a missing argument is \<^verbatim>\<open>undefined\<close>.
\<close>

datatype jsval = JUndefined | JNull | JBool bool | JString string

fun js_String :: "jsval \<Rightarrow> string" where
  "js_String JUndefined = ''undefined''"
| "js_String JNull = ''null''"
| "js_String (JBool b) = (if b then ''true'' else ''false'')"
| "js_String (JString s) = s"

record request =
  name :: string
  arguments :: "(string \<rightharpoonup> jsval) option"

definition url_argument :: "request \<Rightarrow> jsval" where
  "url_argument req =
     (case arguments req of
        None \<Rightarrow> JUndefined
      | Some args \<Rightarrow> (case args ''url'' of None \<Rightarrow> JUndefined | Some v \<Rightarrow> v))"

text \<open>
  What the handler goes on to call: one of the four helper functions, with the
  arguments it passes (\<open>None\<close> for the parameter \<^verbatim>\<open>mainOnly\<close> when the call leaves
  it out).
\<close>

datatype call =
    GetRawTextString string
  | GetHtmlString string
  | GetMarkdownStringFromHtmlByNHM string "bool option"
  | GetMarkdownStringFromHtmlByTD string "bool option"

definition call_tool :: "request \<Rightarrow> error + call" where
  "call_tool req =
     (let url = js_String (url_argument req) in
      if url = [] then Inl UrlRequired
      else if name req = ''get_raw_text'' then Inr (GetRawTextString url)
      else if name req = ''get_rendered_html'' then Inr (GetHtmlString url)
      else if name req = ''get_markdown'' then Inr (GetMarkdownStringFromHtmlByNHM url None)
      else if name req = ''get_markdown_summary''
        then Inr (GetMarkdownStringFromHtmlByTD url (Some True))
      else Inl UnknownTool)"

text \<open>The parameter declaration \<^verbatim>\<open>mainOnly: boolean = false\<close> of both strategies.\<close>

definition mainOnly_param :: "bool option \<Rightarrow> bool" where
  "mainOnly_param a = (case a of None \<Rightarrow> False | Some b \<Rightarrow> b)"

section \<open>The conversion walk of the two strategies\<close>












section \<open>Example documents\<close>

text \<open>\<^verbatim>\<open><table><tr><th>A</th><th>B</th></tr><tr><td>1</td><td>2</td></tr></table>\<close>\<close>

definition table_two_rows :: node where
  "table_two_rows =
     Element ''TABLE''
       [Element ''TR'' [Element ''TH'' [Text ''A''], Element ''TH'' [Text ''B'']],
        Element ''TR'' [Element ''TD'' [Text ''1''], Element ''TD'' [Text ''2'']]]"

text \<open>A one-row table whose only cell holds preformatted text of two lines.\<close>

definition table_pre_cell :: node where
  "table_pre_cell =
     Element ''TABLE''
       [Element ''TR'' [Element ''TD'' [Element ''PRE'' [Text (''a'' @ [NL] @ ''b'')]]]]"

text \<open>\<^verbatim>\<open><table><tr><td><script>alert(1)</script>x</td><td><nav>Menu</nav></td></tr></table>\<close>\<close>

definition table_script_cell :: node where
  "table_script_cell =
     Element ''TABLE''
       [Element ''TR''
          [Element ''TD'' [Element ''SCRIPT'' [Text ''alert(1)''], Text ''x''],
           Element ''TD'' [Element ''NAV'' [Text ''Menu'']]]]"


definition dl_empty_term :: node where
  "dl_empty_term = Element ''DL'' [Element ''DT'' [], Element ''DD'' [Text ''Def'']]"


text \<open>\<^verbatim>\<open><head><meta charset="utf-8"><title>Page</title><style>p { }</style></head>\<close>\<close>

definition head_with_title :: node where
  "head_with_title =
     Element ''HEAD''
       [Element ''META'' [], Element ''TITLE'' [Text ''Page''], Element ''STYLE'' [Text ''p { }'']]"





section \<open>Properties\<close>

lemma trimmedText_eq: "trimmedText n = trim (textContent n)"
  by (simp add: trimmedText_def Let_def)

lemma dl_item_fragment: "fst (dl_item st item) = fst st @ dl_fragment item"
  by (simp add: dl_item_def dl_fragment_def trimmedText_eq Let_def)

lemma dl_fold_fragments:
  "fst (foldl dl_item st items) = fst st @ concat (map dl_fragment items)"
proof (induction items arbitrary: st)
  case Nil
  show ?case by simp
next
  case (Cons item items)
  have "fst (foldl dl_item st (item # items)) = fst (foldl dl_item (dl_item st item) items)"
    by simp
  also have "\<dots> = fst (dl_item st item) @ concat (map dl_fragment items)"
    by (rule Cons.IH)
  also have "\<dots> = fst st @ concat (map dl_fragment (item # items))"
    by (simp add: dl_item_fragment)
  finally show ?case .
qed

subsection \<open>The table rule in closed form\<close>

declare table_rows.simps [simp del]

lemma join_Cons: "join sep (x # xs) = x @ concat (map (\<lambda>y. sep @ y) xs)"
  by (induction xs arbitrary: x) auto

lemma at_index_in_range: "i < length xs \<Longrightarrow> at_index xs i = Some (xs ! i)"
  by (simp add: at_index_def)

lemma table_rows_closed:
  "table_rows i rows md =
     Inr (md @ concat (map (\<lambda>r. [NL] @ pipe_line (cellTexts r)) (drop i rows)))"
proof (induction i rows md rule: table_rows.induct)
  case (1 i rows markdown)
  show ?case
  proof (cases "i < length rows")
    case True
    have d: "drop i rows = rows ! i # drop (i + 1) rows"
      using True by (simp add: Cons_nth_drop_Suc)
    have "table_rows i rows markdown =
            table_rows (i + 1) rows
              (markdown @ [NL] @ ''| '' @ join '' | '' (cellTexts (rows ! i)) @ '' |'')"
      using True by (subst table_rows.simps) (simp add: at_index_in_range)
    also have "\<dots> = Inr ((markdown @ [NL] @ ''| '' @ join '' | '' (cellTexts (rows ! i)) @ '' |'')
                 @ concat (map (\<lambda>r. [NL] @ pipe_line (cellTexts r)) (drop (i + 1) rows)))"
      using True by (intro "1.IH") (simp_all add: at_index_in_range)
    finally show ?thesis
      by (simp add: d pipe_line_def)
  next
    case False
    then show ?thesis
      by (subst table_rows.simps) simp
  qed
qed

lemma table_replacement_closed:
  assumes "querySelectorAll [''TR''] n = h # rest"
  shows "table_replacement n =
           Inr ([NL] @ join [NL] (pipe_line (cellTexts h)
                                  # separator_line (length (cellTexts h))
                                  # map (\<lambda>r. pipe_line (cellTexts r)) rest) @ [NL])"
proof -
  let ?md = "[NL] @ ''| '' @ join '' | '' (cellTexts h) @ '' |'' @ [NL]
               @ ''|'' @ join ''|'' (map (\<lambda>_. ''---'') (cellTexts h)) @ ''|''"
  have unfold: "table_replacement n =
                  (case table_rows 1 (h # rest) ?md of Inl e \<Rightarrow> Inl e | Inr md \<Rightarrow> Inr (md @ [NL]))"
    by (simp add: table_replacement_def assms at_index_def Let_def)
  have j: "join [NL] (pipe_line (cellTexts h) # separator_line (length (cellTexts h))
                        # map (\<lambda>r. pipe_line (cellTexts r)) rest)
           = pipe_line (cellTexts h) @ [NL] @ separator_line (length (cellTexts h))
               @ concat (map (\<lambda>r. [NL] @ pipe_line (cellTexts r)) rest)"
    by (simp add: join_Cons comp_def del: join.simps)
  show ?thesis
    unfolding j
    by (simp add: unfold table_rows_closed map_replicate_const pipe_line_def separator_line_def)
qed

lemma split_lines_line: "NL \<notin> set l \<Longrightarrow> split_lines (l @ NL # s) = l # split_lines s"
  by (induction l) auto

lemma split_lines_last: "NL \<notin> set l \<Longrightarrow> split_lines l = [l]"
  by (induction l) auto

lemma split_lines_join:
  "\<forall>l \<in> set (x # xs). NL \<notin> set l \<Longrightarrow> split_lines (join [NL] (x # xs)) = x # xs"
proof (induction xs arbitrary: x)
  case Nil
  then show ?case by (simp add: split_lines_last)
next
  case (Cons y ys)
  have "split_lines (join [NL] (x # y # ys)) = split_lines (x @ NL # join [NL] (y # ys))"
    by simp
  also have "\<dots> = x # split_lines (join [NL] (y # ys))"
    using Cons.prems by (intro split_lines_line) simp
  also have "split_lines (join [NL] (y # ys)) = y # ys"
    using Cons.prems by (intro Cons.IH) simp
  finally show ?case .
qed

lemma join_framed: "[NL] @ join [NL] (x # xs) @ [NL] = join [NL] ([] # (x # xs) @ [[]])"
  by (induction xs arbitrary: x) auto

lemma block_lines_framed:
  assumes "\<forall>l \<in> set (x # xs). NL \<notin> set l"
  shows "block_lines ([NL] @ join [NL] (x # xs) @ [NL]) = x # xs"
proof -
  have "split_lines (join [NL] ([] # (x # xs) @ [[]])) = [] # (x # xs) @ [[]]"
    using assms by (intro split_lines_join) auto
  then show ?thesis
    unfolding join_framed by (simp add: block_lines_def butlast_append)
qed

lemma NL_notin_join:
  "NL \<notin> set sep \<Longrightarrow> \<forall>c \<in> set cells. NL \<notin> set c \<Longrightarrow> NL \<notin> set (join sep cells)"
  by (induction sep cells rule: join.induct) auto

lemma NL_notin_pipe_line:
  "\<forall>c \<in> set cells. NL \<notin> set c \<Longrightarrow> NL \<notin> set (pipe_line cells)"
  using NL_notin_join[of "'' | ''" cells] by (simp add: pipe_line_def)

lemma NL_notin_separator_line: "NL \<notin> set (separator_line w)"
  using NL_notin_join[of "''|''" "replicate w ''---''"] by (simp add: separator_line_def)

text \<open>
  C2. The definition-list rule scans the direct element children of the node in order;
  each child contributes its fragment (a bold label for a term with non-empty trimmed
  text, a space, the text and a newline for a definition with non-empty trimmed text,
  nothing otherwise), and the whole is framed by two leading newlines and one trailing
  newline.
\<close>

theorem dl_replacement_scans_children:
  "dl_replacement n = [NL, NL] @ concat (map dl_fragment (children n)) @ [NL]"
  by (simp add: dl_replacement_def dl_fold_fragments)

text \<open>The definitions that evaluate a query on a concrete tree.\<close>

lemmas dom_eval = querySelectorAll_def matchesSel_def cellTexts_def trimmedText_def trim_def
  isWhiteSpace_def children_def

text \<open>
  C1 (as amended). For a table node whose rows, collected among its descendants in
  document order, are a header row followed by \<open>n\<close> further rows, the table rule emits
  a leading newline, the header line built from the trimmed texts of the header row's
  cells, the separator line with one dash group per header cell (the later rows are not
  measured), one line per further row built from that row's own trimmed cells, the
  lines joined by newlines, and a trailing newline. When no trimmed cell text contains
  a line feed, the block between the leading and the trailing newline is exactly these
  \<open>n + 2\<close> lines.
\<close>

theorem table_replacement_block:
  assumes "querySelectorAll [''TR''] n = h # rest"
  shows "table_replacement n =
           Inr ([NL] @ join [NL] (pipe_line (cellTexts h)
                                  # separator_line (length (cellTexts h))
                                  # map (\<lambda>r. pipe_line (cellTexts r)) rest) @ [NL])
         \<and> ((\<forall>r \<in> set (h # rest). \<forall>c \<in> set (cellTexts r). NL \<notin> set c) \<longrightarrow>
              (\<exists>out. table_replacement n = Inr out
                 \<and> block_lines out = pipe_line (cellTexts h)
                                      # separator_line (length (cellTexts h))
                                      # map (\<lambda>r. pipe_line (cellTexts r)) rest
                 \<and> length (block_lines out) = length rest + 2))"
proof (intro conjI impI)
  let ?ls = "separator_line (length (cellTexts h)) # map (\<lambda>r. pipe_line (cellTexts r)) rest"
  show closed: "table_replacement n = Inr ([NL] @ join [NL] (pipe_line (cellTexts h) # ?ls) @ [NL])"
    by (rule table_replacement_closed [OF assms])
  assume cells: "\<forall>r \<in> set (h # rest). \<forall>c \<in> set (cellTexts r). NL \<notin> set c"
  have "\<forall>l \<in> set (pipe_line (cellTexts h) # ?ls). NL \<notin> set l"
    using cells by (auto simp: NL_notin_pipe_line NL_notin_separator_line)
  then have "block_lines ([NL] @ join [NL] (pipe_line (cellTexts h) # ?ls) @ [NL])
               = pipe_line (cellTexts h) # ?ls"
    by (rule block_lines_framed)
  with closed show "\<exists>out. table_replacement n = Inr out
                 \<and> block_lines out = pipe_line (cellTexts h) # ?ls
                 \<and> length (block_lines out) = length rest + 2"
    by simp
qed

text \<open>
  The theorem at the table of scenario 1: a header row and one data row give the three
  lines \<^verbatim>\<open>| A | B |\<close>, \<^verbatim>\<open>|---|---|\<close> and \<^verbatim>\<open>| 1 | 2 |\<close>.
\<close>

theorem table_replacement_block_witness:
  "table_replacement table_two_rows =
     Inr ([NL] @ ''| A | B |'' @ [NL] @ ''|---|---|'' @ [NL] @ ''| 1 | 2 |'' @ [NL])
   \<and> (\<exists>out. table_replacement table_two_rows = Inr out
         \<and> block_lines out = [''| A | B |'', ''|---|---|'', ''| 1 | 2 |'']
         \<and> length (block_lines out) = 1 + 2)"
proof -
  let ?h = "Element ''TR'' [Element ''TH'' [Text ''A''], Element ''TH'' [Text ''B'']]"
  let ?r = "Element ''TR'' [Element ''TD'' [Text ''1''], Element ''TD'' [Text ''2'']]"
  have rows: "querySelectorAll [''TR''] table_two_rows = ?h # [?r]"
    by (simp add: table_two_rows_def dom_eval)
  have h: "cellTexts ?h = [''A'', ''B'']" and r: "cellTexts ?r = [''1'', ''2'']"
    by (simp_all add: dom_eval)
  have cells: "\<forall>r \<in> set (?h # [?r]). \<forall>c \<in> set (cellTexts r). NL \<notin> set c"
    by (simp add: h r)
  have lines: "pipe_line [''A'', ''B''] = ''| A | B |''" "pipe_line [''1'', ''2''] = ''| 1 | 2 |''"
    "separator_line (Suc (Suc 0)) = ''|---|---|''"
    by (simp_all add: pipe_line_def separator_line_def)
  note block = table_replacement_block [OF rows]
  from block have "table_replacement table_two_rows =
      Inr ([NL] @ ''| A | B |'' @ [NL] @ ''|---|---|'' @ [NL] @ ''| 1 | 2 |'' @ [NL])"
    by (simp add: h r lines)
  moreover from block cells have "\<exists>out. table_replacement table_two_rows = Inr out
         \<and> block_lines out = [''| A | B |'', ''|---|---|'', ''| 1 | 2 |'']
         \<and> length (block_lines out) = 1 + 2"
    by (simp add: h r lines block_lines_def)
  ultimately show ?thesis by blast
qed

text \<open>
  C1 as stated fails where a cell's trimmed text keeps a line feed (trimming removes
  white space at the two ends only): a table of one row, so with no data row, whose
  cell holds the preformatted text of two lines, gives a block of three lines, not two.
\<close>

theorem table_line_count_counterexample:
  "length (querySelectorAll [''TR''] table_pre_cell) = 0 + 1
   \<and> table_replacement table_pre_cell =
       Inr ([NL] @ ''| a'' @ [NL] @ ''b |'' @ [NL] @ ''|---|'' @ [NL])
   \<and> length (block_lines ([NL] @ ''| a'' @ [NL] @ ''b |'' @ [NL] @ ''|---|'' @ [NL])) \<noteq> 0 + 2"
  by (simp add: table_pre_cell_def table_replacement_def at_index_def Let_def dom_eval
      table_rows.simps block_lines_def)

subsection \<open>Fragments without rows or terms\<close>

lemma dl_replacement_fragments:
  "dl_replacement n = [NL, NL] @ concat (map dl_fragment (children n)) @ [NL]"
  by (simp add: dl_replacement_def dl_fold_fragments)

lemma tagName_Some_isElement: "tagName n = Some t \<Longrightarrow> isElement n"
  by (cases n) simp_all

lemma table_replacement_no_rows:
  "querySelectorAll [''TR''] n = [] \<Longrightarrow> table_replacement n = Inr []"
  by (simp add: table_replacement_def)

lemma table_replacement_returns: "\<exists>out. table_replacement n = Inr out"
proof (cases "querySelectorAll [''TR''] n")
  case Nil
  then show ?thesis by (simp add: table_replacement_no_rows)
next
  case (Cons h rest)
  then show ?thesis by (simp add: table_replacement_closed)
qed

lemma concat_all_empty: "\<forall>x \<in> set xs. f x = [] \<Longrightarrow> concat (map f xs) = []"
  by (induction xs) auto

text \<open>
  C5. A table or definition-list node without usable rows or terms is not an error: the
  table rule returns the empty string for every node with no \<^verbatim>\<open>tr\<close> descendant, it
  returns a string (never raises) on every node, and the definition-list rule, which
  has no failing operation, returns only its frame of newlines when no direct child
  contributes a fragment.
\<close>

theorem malformed_fragments_degrade:
  "(querySelectorAll [''TR''] n = [] \<longrightarrow> table_replacement n = Inr [])
   \<and> (\<exists>out. table_replacement n = Inr out)
   \<and> ((\<forall>c \<in> set (children n). dl_fragment c = []) \<longrightarrow> dl_replacement n = [NL, NL, NL])"
proof (intro conjI impI)
  assume "querySelectorAll [''TR''] n = []"
  then show "table_replacement n = Inr []" by (rule table_replacement_no_rows)
next
  show "\<exists>out. table_replacement n = Inr out" by (rule table_replacement_returns)
next
  assume "\<forall>c \<in> set (children n). dl_fragment c = []"
  then have "concat (map dl_fragment (children n)) = []" by (rule concat_all_empty)
  then show "dl_replacement n = [NL, NL, NL]"
    by (simp add: dl_replacement_fragments)
qed

text \<open>
  The theorem at \<^verbatim>\<open><table></table>\<close> (scenario 4), at a table with an empty body
  and stray text, and at a definition list whose term is blank.
\<close>

theorem malformed_fragments_degrade_witness:
  "table_replacement (Element ''TABLE'' []) = Inr []
   \<and> table_replacement (Element ''TABLE'' [Element ''TBODY'' [], Text ''x'']) = Inr []
   \<and> dl_replacement (Element ''DL'' [Element ''DT'' [Text '' ''], Element ''P'' [Text ''x'']])
       = [NL, NL, NL]"
proof -
  have dl: "\<forall>c \<in> set (children (Element ''DL'' [Element ''DT'' [Text '' ''], Element ''P'' [Text ''x'']])).
              dl_fragment c = []"
    by (simp add: dom_eval dl_fragment_def)
  have t1: "querySelectorAll [''TR''] (Element ''TABLE'' []) = []"
    and t2: "querySelectorAll [''TR''] (Element ''TABLE'' [Element ''TBODY'' [], Text ''x'']) = []"
    by (simp_all add: dom_eval)
  from malformed_fragments_degrade [of "Element ''TABLE'' []"] t1
  have "table_replacement (Element ''TABLE'' []) = Inr []" by blast
  moreover from malformed_fragments_degrade [of "Element ''TABLE'' [Element ''TBODY'' [], Text ''x'']"] t2
  have "table_replacement (Element ''TABLE'' [Element ''TBODY'' [], Text ''x'']) = Inr []" by blast
  moreover from malformed_fragments_degrade
      [of "Element ''DL'' [Element ''DT'' [Text '' ''], Element ''P'' [Text ''x'']]"] dl
  have "dl_replacement (Element ''DL'' [Element ''DT'' [Text '' ''], Element ''P'' [Text ''x'']])
       = [NL, NL, NL]" by blast
  ultimately show ?thesis by blast
qed

subsection \<open>A term without text\<close>

lemma no_marker_in_def_line: "\<not> sublist ''**:**'' ([NL, NL] @ '' Def'' @ [NL] @ [NL])"
  by code_simp

text \<open>
  The Turndown rule at a term without text: for a definition list whose children are
  a \<^verbatim>\<open>dt\<close> with empty trimmed text followed by a \<^verbatim>\<open>dd\<close> with the text
  \<^verbatim>\<open>Def\<close>, the rule emits, inside its frame, only the definition line, and no
  \<^verbatim>\<open>**:**\<close> marker (the guard \<^verbatim>\<open>if (currentDt)\<close>).
\<close>

theorem dl_empty_term_no_marker:
  assumes "tagName t = Some ''DT''" and "trim (textContent t) = []"
    and "tagName d = Some ''DD''" and "trim (textContent d) = ''Def''"
  shows "dl_replacement (Element ''DL'' [t, d]) = [NL, NL] @ '' Def'' @ [NL] @ [NL]
         \<and> \<not> sublist ''**:**'' (dl_replacement (Element ''DL'' [t, d]))"
proof -
  have el: "isElement t" "isElement d"
    using assms(1,3) by (simp_all add: tagName_Some_isElement)
  have ft: "dl_fragment t = []"
    using assms(1,2) by (simp add: dl_fragment_def)
  have fd: "dl_fragment d = '' Def'' @ [NL]"
    using assms(3,4) by (simp add: dl_fragment_def)
  have out: "dl_replacement (Element ''DL'' [t, d]) = [NL, NL] @ '' Def'' @ [NL] @ [NL]"
    by (simp add: dl_replacement_fragments children_def el ft fd)
  show ?thesis
    unfolding out using no_marker_in_def_line by simp
qed

text \<open>The rule at \<^verbatim>\<open><dl><dt></dt><dd>Def</dd></dl>\<close> (scenario 5).\<close>

theorem dl_empty_term_no_marker_witness:
  "dl_replacement dl_empty_term = [NL, NL] @ '' Def'' @ [NL] @ [NL]
   \<and> \<not> sublist ''**:**'' (dl_replacement dl_empty_term)"
proof -
  have "trim (textContent (Element ''DT'' [])) = []"
    and "trim (textContent (Element ''DD'' [Text ''Def''])) = ''Def''"
    by (simp_all add: trim_def isWhiteSpace_def)
  then show ?thesis
    unfolding dl_empty_term_def
    by (intro dl_empty_term_no_marker) simp_all
qed

lemma marker_in_empty_wrap: "sublist ''**:**'' ''**:** ''"
  by code_simp

text \<open>
  C6 (the code at the failing input). For \<^verbatim>\<open><dl><dt></dt><dd>Def</dd></dl>\<close> the two
  strategies differ. The translator that \<^verbatim>\<open>getMarkdownStringFromHtmlByNHM\<close> configures
  for \<^verbatim>\<open>dt\<close> has the prefix \<^verbatim>\<open>**\<close> and the postfix \<^verbatim>\<open>:**\<close> followed by a space,
  with no test of the term's text, no post-processing and no ignore flag: around the
  empty text of the term they form the marker \<^verbatim>\<open>**:**\<close>. The Turndown rule, which
  tests the trimmed text of the term first, emits no marker for the same list.
\<close>

theorem empty_term_marker_by_translator:
  "map_of (customTranslators mainOnly) ''dt'' =
     Some (noDirectives\<lparr>prefixStr := Some ''**'', postfixStr := Some '':** '',
                        surroundingNewlines := Some False\<rparr>)
   \<and> trim (textContent (Element ''DT'' [])) = []
   \<and> ''**'' @ textContent (Element ''DT'' []) @ '':** '' = ''**:** ''
   \<and> sublist ''**:**'' ''**:** ''
   \<and> dl_replacement dl_empty_term = [NL, NL] @ '' Def'' @ [NL] @ [NL]
   \<and> \<not> sublist ''**:**'' (dl_replacement dl_empty_term)"
proof -
  have "map_of (customTranslators mainOnly) ''dt'' =
     Some (noDirectives\<lparr>prefixStr := Some ''**'', postfixStr := Some '':** '',
                        surroundingNewlines := Some False\<rparr>)"
    by (simp add: customTranslators_def)
  moreover have "trim (textContent (Element ''DT'' [])) = []"
    by (simp add: dom_eval)
  moreover have "''**'' @ textContent (Element ''DT'' []) @ '':** '' = ''**:** ''"
    by simp
  moreover note marker_in_empty_wrap dl_empty_term_no_marker_witness
  ultimately show ?thesis by blast
qed

subsection \<open>The tool handler\<close>

lemma url_required_only_empty:
  "call_tool req = Inl UrlRequired \<longleftrightarrow> js_String (url_argument req) = []"
  by (simp add: call_tool_def Let_def)

text \<open>
  C7 (the code at the failing input). A call that supplies no \<^verbatim>\<open>url\<close> is not
  rejected: \<^verbatim>\<open>String(undefined)\<close> is the text \<^verbatim>\<open>undefined\<close>, which is not empty, so
  the guard \<^verbatim>\<open>if (!url)\<close> does not fire and the handler goes on to call the helper
  with that text as the URL. This holds with no arguments object, with an empty one and
  with one that has other keys only.
\<close>

theorem missing_url_not_rejected:
  "call_tool \<lparr>name = ''get_raw_text'', arguments = None\<rparr> = Inr (GetRawTextString ''undefined'')
   \<and> call_tool \<lparr>name = ''get_rendered_html'', arguments = Some Map.empty\<rparr>
       = Inr (GetHtmlString ''undefined'')
   \<and> call_tool \<lparr>name = ''get_markdown'', arguments = Some [''uri'' \<mapsto> JString ''http://a'']\<rparr>
       = Inr (GetMarkdownStringFromHtmlByNHM ''undefined'' None)"
  by (simp add: call_tool_def url_argument_def)

text \<open>
  C10. The handler fixes the strategy of each markdown tool: a call reaches the
  NodeHtmlMarkdown strategy only from \<^verbatim>\<open>get_markdown\<close> and then with \<^verbatim>\<open>mainOnly\<close>
  at its default \<^verbatim>\<open>false\<close>, it reaches the Turndown strategy only from
  \<^verbatim>\<open>get_markdown_summary\<close> and then with \<^verbatim>\<open>mainOnly\<close> true, and each of the two
  tools, given a URL text that is not empty, makes exactly that call.
\<close>

theorem markdown_tools_hardwired:
  "(call_tool req = Inr (GetMarkdownStringFromHtmlByNHM u a)
      \<longrightarrow> name req = ''get_markdown'' \<and> mainOnly_param a = False)
   \<and> (call_tool req = Inr (GetMarkdownStringFromHtmlByTD u a)
      \<longrightarrow> name req = ''get_markdown_summary'' \<and> mainOnly_param a = True)
   \<and> (name req = ''get_markdown'' \<and> js_String (url_argument req) \<noteq> []
      \<longrightarrow> call_tool req = Inr (GetMarkdownStringFromHtmlByNHM (js_String (url_argument req)) None))
   \<and> (name req = ''get_markdown_summary'' \<and> js_String (url_argument req) \<noteq> []
      \<longrightarrow> call_tool req =
            Inr (GetMarkdownStringFromHtmlByTD (js_String (url_argument req)) (Some True)))"
  by (auto simp: call_tool_def Let_def mainOnly_param_def split: if_splits)

text \<open>The theorem at the two markdown tools called with the URL \<^verbatim>\<open>http://a\<close>.\<close>

theorem markdown_tools_hardwired_witness:
  "call_tool \<lparr>name = ''get_markdown'', arguments = Some [''url'' \<mapsto> JString ''http://a'']\<rparr>
     = Inr (GetMarkdownStringFromHtmlByNHM ''http://a'' None)
   \<and> mainOnly_param None = False
   \<and> call_tool \<lparr>name = ''get_markdown_summary'', arguments = Some [''url'' \<mapsto> JString ''http://a'']\<rparr>
     = Inr (GetMarkdownStringFromHtmlByTD ''http://a'' (Some True))
   \<and> mainOnly_param (Some True) = True"
proof -
  let ?r1 = "\<lparr>name = ''get_markdown'', arguments = Some [''url'' \<mapsto> JString ''http://a'']\<rparr>"
  let ?r2 = "\<lparr>name = ''get_markdown_summary'', arguments = Some [''url'' \<mapsto> JString ''http://a'']\<rparr>"
  have u1: "js_String (url_argument ?r1) = ''http://a''" and u2: "js_String (url_argument ?r2) = ''http://a''"
    by (simp_all add: url_argument_def)
  have c1: "call_tool ?r1 = Inr (GetMarkdownStringFromHtmlByNHM ''http://a'' None)"
    using markdown_tools_hardwired [of ?r1] u1 by simp
  have c2: "call_tool ?r2 = Inr (GetMarkdownStringFromHtmlByTD ''http://a'' (Some True))"
    using markdown_tools_hardwired [of ?r2] u2 by simp
  from markdown_tools_hardwired [of ?r1 "''http://a''" None] c1
  have "mainOnly_param None = False" by blast
  moreover from markdown_tools_hardwired [of ?r2 "''http://a''" "Some True"] c2
  have "mainOnly_param (Some True) = True" by blast
  ultimately show ?thesis using c1 c2 by blast
qed

subsection \<open>The head translator\<close>

text \<open>The early-exit search finds the first match of the document-order listing.\<close>

lemma querySelector_first:
  "querySelector sel n = (case querySelectorAll sel n of [] \<Rightarrow> None | d # _ \<Rightarrow> Some d)"
  "querySelectorIn sel cs =
     (case filter (matchesSel sel) (concat (map (\<lambda>c. c # descendants c) cs)) of
        [] \<Rightarrow> None | d # _ \<Rightarrow> Some d)"
proof (induction sel n and sel cs rule: querySelector_querySelectorIn.induct)
  case (1 sel s)
  show ?case by (simp add: querySelectorAll_def)
next
  case (2 sel t cs)
  then show ?case by (simp add: querySelectorAll_def)
next
  case (3 sel)
  show ?case by simp
next
  case (4 sel c cs)
  show ?case
  proof (cases "matchesSel sel c")
    case True
    then show ?thesis by simp
  next
    case False
    show ?thesis
    proof (cases "querySelectorAll sel c")
      case Nil
      with False 4 show ?thesis by (simp add: querySelectorAll_def)
    next
      case (Cons d ds)
      with False 4 show ?thesis by (simp add: querySelectorAll_def)
    qed
  qed
qed

text \<open>
  C8. The head is special-cased by a post-processing hook: the \<^verbatim>\<open>Head\<close> translator is
  not ignored and carries the hook, whose result is the text of the head's first
  \<^verbatim>\<open>title\<close> element in document order, whatever else the head holds, and the empty
  string when the head has no title element.
\<close>

theorem head_renders_title_only:
  "map_of (customTranslators mainOnly) ''Head'' =
     Some (noDirectives\<lparr>postfixStr := Some [NL], ignore := Some False,
                        postprocess := Some head_postprocess, surroundingNewlines := Some True\<rparr>)
   \<and> (querySelectorAll [''TITLE''] n = [] \<longrightarrow> head_postprocess n = [])
   \<and> (\<forall>t ts. querySelectorAll [''TITLE''] n = t # ts \<longrightarrow> head_postprocess n = textContent t)"
  by (simp add: customTranslators_def head_postprocess_def querySelector_first Let_def)

text \<open>The theorem at a head with a title among other elements, and at one without.\<close>

theorem head_renders_title_only_witness:
  "head_postprocess head_with_title = ''Page''
   \<and> head_postprocess (Element ''HEAD'' [Element ''META'' [], Element ''STYLE'' [Text ''p { }'']]) = []"
proof -
  have q1: "querySelectorAll [''TITLE''] head_with_title = Element ''TITLE'' [Text ''Page''] # []"
    by (simp add: head_with_title_def dom_eval)
  have q2: "querySelectorAll [''TITLE''] (Element ''HEAD'' [Element ''META'' [], Element ''STYLE'' [Text ''p { }'']]) = []"
    by (simp add: dom_eval)
  from head_renders_title_only [of True head_with_title] q1
  have "head_postprocess head_with_title = textContent (Element ''TITLE'' [Text ''Page''])" by blast
  moreover from head_renders_title_only [of True "Element ''HEAD'' [Element ''META'' [], Element ''STYLE'' [Text ''p { }'']]"] q2
  have "head_postprocess (Element ''HEAD'' [Element ''META'' [], Element ''STYLE'' [Text ''p { }'']]) = []" by blast
  ultimately show ?thesis by simp
qed

subsection \<open>Markers and separator lines of the rules\<close>






subsection \<open>Removed elements inside a table\<close>

text \<open>
  C4 (the code at the failing input). With \<^verbatim>\<open>mainOnly\<close> set, \<^verbatim>\<open>script\<close> and
  \<^verbatim>\<open>nav\<close> are registered for removal, yet the table rule builds its cells from
  \<^verbatim>\<open>textContent\<close>, which includes the text of script and nav elements inside a cell:
  for the table with the cells \<^verbatim>\<open><td><script>alert(1)</script>x</td>\<close> and
  \<^verbatim>\<open><td><nav>Menu</nav></td>\<close> the rule's output holds both texts.
\<close>

theorem table_rule_reads_removed_text:
  "map_of (turndownRules True) ''script'' = Some Remove
   \<and> map_of (turndownRules True) ''nav'' = Some Remove
   \<and> table_replacement table_script_cell =
       Inr ([NL] @ ''| alert(1)x | Menu |'' @ [NL] @ ''|---|---|'' @ [NL])"
  by (simp add: turndownRules_def table_script_cell_def table_replacement_def at_index_def
      Let_def dom_eval table_rows.simps)

subsection \<open>What the walks keep of a fragment\<close>

















subsection \<open>What the two strategies promise for definition lists and tables\<close>









end
